theory Spec2Isabelle
  imports Main
begin

section \<open>Python strings\<close>

text \<open>
  A Python \<open>str\<close> is a sequence of Unicode code points; it is modelled as a list of
  natural numbers below \<open>0x110000\<close>.  Slicing, \<open>len\<close> and \<open>in\<close> therefore count code
  points, as Python does.  \<open>str\<close> turns an ASCII literal into such a list.
\<close>

type_synonym pystr = "nat list"

definition str :: "string \<Rightarrow> pystr" where
  "str cs = map of_char cs"

text \<open>The characters \<open>str.strip()\<close> and \<open>str.isspace()\<close> treat as whitespace.\<close>

definition is_space :: "nat \<Rightarrow> bool" where
  "is_space c =
     ((9 \<le> c \<and> c \<le> 13) \<or> (28 \<le> c \<and> c \<le> 32) \<or> c = 133 \<or> c = 160 \<or> c = 5760 \<or>
      (8192 \<le> c \<and> c \<le> 8202) \<or> c = 8232 \<or> c = 8233 \<or> c = 8239 \<or> c = 8287 \<or> c = 12288)"

definition lstrip :: "pystr \<Rightarrow> pystr" where
  "lstrip s = dropWhile is_space s"

definition rstrip :: "pystr \<Rightarrow> pystr" where
  "rstrip s = rev (dropWhile is_space (rev s))"

definition strip :: "pystr \<Rightarrow> pystr" where
  "strip s = rstrip (lstrip s)"

definition startswith :: "pystr \<Rightarrow> pystr \<Rightarrow> bool" where
  "startswith s pre = (take (length pre) s = pre)"

definition endswith :: "pystr \<Rightarrow> pystr \<Rightarrow> bool" where
  "endswith s suf = (length suf \<le> length s \<and> drop (length s - length suf) s = suf)"

text \<open>\<open>s.split(sep)\<close> for a one-character separator: every occurrence splits, so the
  result has one more element than \<open>s\<close> has separators and is never empty.\<close>

fun split_on :: "nat \<Rightarrow> pystr \<Rightarrow> pystr list" where
  "split_on sep [] = [[]]"
| "split_on sep (c # cs) =
     (if c = sep then [] # split_on sep cs
      else (case split_on sep cs of
              [] \<Rightarrow> [[c]]
            | p # ps \<Rightarrow> (c # p) # ps))"

text \<open>\<open>s.replace(a, b)\<close> for one-character \<open>a\<close> and \<open>b\<close>.\<close>

definition replace_char :: "nat \<Rightarrow> nat \<Rightarrow> pystr \<Rightarrow> pystr" where
  "replace_char a b s = map (\<lambda>c. if c = a then b else c) s"

text \<open>
  \<open>str.lower()\<close> follows the Unicode case tables, which are not part of the program.
  Functions that call it take it as the parameter \<open>lower\<close>; \<open>ascii_lower\<close> is the
  restriction of the real function to ASCII text and serves for concrete runs.
\<close>

definition ascii_lower :: "pystr \<Rightarrow> pystr" where
  "ascii_lower s = map (\<lambda>c. if 65 \<le> c \<and> c \<le> 90 then c + 32 else c) s"

section \<open>UTF-8 encoding\<close>

datatype error = UnicodeEncodeError

text \<open>
  \<open>s.encode('utf-8')\<close> with the default strict error handling: a surrogate code point
  (\<open>0xD800\<close> to \<open>0xDFFF\<close>) raises \<open>UnicodeEncodeError\<close>.  Bytes are natural numbers
  below 256.
\<close>

definition scalar_value :: "nat \<Rightarrow> bool" where
  "scalar_value c = (c < 55296 \<or> (57344 \<le> c \<and> c < 1114112))"

definition utf8_encode_cp :: "nat \<Rightarrow> nat list" where
  "utf8_encode_cp c =
     (if c < 128 then [c]
      else if c < 2048 then [192 + c div 64, 128 + c mod 64]
      else if c < 65536 then [224 + c div 4096, 128 + (c div 64) mod 64, 128 + c mod 64]
      else [240 + c div 262144, 128 + (c div 4096) mod 64, 128 + (c div 64) mod 64,
            128 + c mod 64])"

fun utf8_encode :: "pystr \<Rightarrow> error + nat list" where
  "utf8_encode [] = Inr []"
| "utf8_encode (c # cs) =
     (if scalar_value c then
        (case utf8_encode cs of
           Inl e \<Rightarrow> Inl e
         | Inr bs \<Rightarrow> Inr (utf8_encode_cp c @ bs))
      else Inl UnicodeEncodeError)"

section \<open>Path components (posixpath)\<close>

text \<open>
  \<open>os.path\<close> is modelled on the non-Windows branch of the program, where the only
  separator is \<open>/\<close>.  \<open>basename\<close> is what follows the last separator; \<open>splitext\<close> splits
  at the last dot of the last component unless that component has only leading dots
  before it.
\<close>

definition slash :: nat where
  "slash = 47"

definition dot :: nat where
  "dot = 46"

definition basename :: "pystr \<Rightarrow> pystr" where
  "basename p = rev (takeWhile (\<lambda>c. c \<noteq> slash) (rev p))"

definition splitext :: "pystr \<Rightarrow> pystr \<times> pystr" where
  "splitext p =
     (let tail = basename p;
          ext = rev (takeWhile (\<lambda>c. c \<noteq> dot) (rev tail));
          stem = take (length tail - length ext - 1) tail
      in if dot \<in> set tail \<and> dropWhile (\<lambda>c. c = dot) stem \<noteq> []
         then (take (length p - length ext - 1) p, dot # ext)
         else (p, []))"

section \<open>Descriptor file names\<close>

definition MAX_FILENAME_LENGTH :: nat where
  "MAX_FILENAME_LENGTH = 215"

definition VALID_CHARS :: pystr where
  "VALID_CHARS =
     str ''-_.() abcdefghijklmnopqrstuvwxyzABCDEFGHIJKLMNOPQRSTUVWXYZ0123456789''"

definition m3u_ext :: pystr where
  "m3u_ext = str ''.m3u''"

text \<open>\<open>MKVPlaylistGenerator.sanitize_playlist_name\<close>.\<close>

definition sanitize_playlist_name :: "pystr \<Rightarrow> pystr" where
  "sanitize_playlist_name name = strip (filter (\<lambda>c. c \<in> set VALID_CHARS) name)"

text \<open>
  The naming steps of \<open>create_mkv_playlists\<close> (and, with the sanitizer written inline,
  of \<open>create_mp4_playlists\<close>): \<open>mkv_safe_name\<close> is the value of \<open>safe_name\<close> for a display
  name, \<open>mkv_playlist_file\<close> the file name written inside the playlist folder for a
  scanned video path.
\<close>

definition mkv_safe_name :: "pystr \<Rightarrow> pystr" where
  "mkv_safe_name filename =
     take (MAX_FILENAME_LENGTH - length m3u_ext) (sanitize_playlist_name filename)"

definition mkv_playlist_file :: "pystr \<Rightarrow> pystr" where
  "mkv_playlist_file file_path =
     (let filename = fst (splitext (basename file_path))
      in mkv_safe_name filename @ m3u_ext)"

text \<open>
  The naming steps of \<open>write_playlist\<close> inside \<open>create_music_playlists\<close>.  The digest
  function of \<open>hashlib.md5\<close> is the parameter \<open>md5_hexdigest\<close>, from the encoded bytes to
  the hexadecimal text.
\<close>

definition write_playlist_safe_name :: "(nat list \<Rightarrow> pystr) \<Rightarrow> pystr \<Rightarrow> error + pystr" where
  "write_playlist_safe_name md5_hexdigest name =
     (let safe_name = strip (filter (\<lambda>c. c \<in> set VALID_CHARS) name)
      in if safe_name = [] then
           (case utf8_encode name of
              Inl e \<Rightarrow> Inl e
            | Inr bs \<Rightarrow>
                Inr (take (MAX_FILENAME_LENGTH - length m3u_ext)
                       (str ''playlist_'' @ take 8 (md5_hexdigest bs))))
         else Inr (take (MAX_FILENAME_LENGTH - length m3u_ext) safe_name))"

definition write_playlist_file :: "(nat list \<Rightarrow> pystr) \<Rightarrow> pystr \<Rightarrow> error + pystr" where
  "write_playlist_file md5_hexdigest name =
     (case write_playlist_safe_name md5_hexdigest name of
        Inl e \<Rightarrow> Inl e
      | Inr safe_name \<Rightarrow> Inr (safe_name @ m3u_ext))"

section \<open>Live filter of the library table\<close>

text \<open>An entry of \<open>all_media_items\<close>, the dictionary built by \<open>refresh_library\<close>.\<close>

record media_item =
  item_name :: pystr
  item_type :: pystr
  item_path :: pystr
  item_playlist :: "pystr option"
  item_artist :: pystr
  item_album :: pystr

definition SCORE_THRESHOLD :: int where
  "SCORE_THRESHOLD = 70"

definition comma :: nat where
  "comma = 44"

text \<open>
  \<open>MKVPlayerApp.filter_library\<close>.  \<open>entry_text\<close> is the content of the search box,
  \<open>ratio\<close> is \<open>process.fuzz.ratio\<close> of the fuzzywuzzy library (a score from 0 to 100),
  and the result is the list handed to \<open>populate_tree\<close>.
\<close>

definition filter_query :: "(pystr \<Rightarrow> pystr) \<Rightarrow> pystr \<Rightarrow> pystr" where
  "filter_query lower entry_text = lower (strip entry_text)"

definition filter_parts :: "(pystr \<Rightarrow> pystr) \<Rightarrow> pystr \<Rightarrow> pystr list" where
  "filter_parts lower entry_text = map strip (split_on comma (filter_query lower entry_text))"

definition filter_library ::
  "(pystr \<Rightarrow> pystr) \<Rightarrow> (pystr \<Rightarrow> pystr \<Rightarrow> int) \<Rightarrow> media_item list \<Rightarrow> pystr \<Rightarrow> media_item list"
where
  "filter_library lower ratio all_media_items entry_text =
     (let query = filter_query lower entry_text in
      if query = [] then all_media_items
      else
        let parts = map strip (split_on comma query) in
        if length parts = 1 then
          (let term = parts ! 0 in
           filter (\<lambda>item.
               let scores = [ratio term (lower (item_name item)),
                             ratio term (lower (item_album item)),
                             ratio term (lower (item_artist item))]
               in list_ex (\<lambda>score. score \<ge> SCORE_THRESHOLD) scores)
             all_media_items)
        else if length parts = 2 then
          (let album_q = parts ! 0; artist_q = parts ! 1 in
           filter (\<lambda>item.
               item_album item \<noteq> [] \<and> item_artist item \<noteq> [] \<and>
               ratio album_q (lower (item_album item)) \<ge> SCORE_THRESHOLD \<and>
               ratio artist_q (lower (item_artist item)) \<ge> SCORE_THRESHOLD)
             all_media_items)
        else if length parts = 3 then
          (let song_q = parts ! 0; album_q = parts ! 1; artist_q = parts ! 2 in
           filter (\<lambda>item.
               item_name item \<noteq> [] \<and> item_album item \<noteq> [] \<and> item_artist item \<noteq> [] \<and>
               ratio song_q (lower (item_name item)) \<ge> SCORE_THRESHOLD \<and>
               ratio album_q (lower (item_album item)) \<ge> SCORE_THRESHOLD \<and>
               ratio artist_q (lower (item_artist item)) \<ge> SCORE_THRESHOLD)
             all_media_items)
        else [])"

text \<open>A scorer for concrete runs: it agrees with \<open>fuzz.ratio\<close> on equal strings (100)
  and on strings with no character in common (0), the only inputs it is run on.\<close>

definition exact_ratio :: "pystr \<Rightarrow> pystr \<Rightarrow> int" where
  "exact_ratio s1 s2 = (if s1 = s2 then 100 else 0)"

section \<open>UTF-8 decoding and percent-encoding (urllib.parse)\<close>

text \<open>
  \<open>bytes.decode('utf-8', 'replace')\<close>: ill-formed input yields \<open>U+FFFD\<close> (65533), one for
  each maximal ill-formed prefix, and decoding resumes at the offending byte.  Overlong
  forms, surrogates and values above \<open>0x10FFFF\<close> are ill-formed.
\<close>

definition is_cont :: "nat \<Rightarrow> bool" where
  "is_cont b = (128 \<le> b \<and> b < 192)"

definition REPLACEMENT :: nat where
  "REPLACEMENT = 65533"

fun utf8_decode :: "nat list \<Rightarrow> pystr" where
  "utf8_decode [] = []"
| "utf8_decode (b # bs) =
     (if b < 128 then b # utf8_decode bs
      else if b < 194 then REPLACEMENT # utf8_decode bs
      else if b < 224 then
        (case bs of
           [] \<Rightarrow> [REPLACEMENT]
         | b1 # r1 \<Rightarrow>
             if is_cont b1 then ((b - 192) * 64 + (b1 - 128)) # utf8_decode r1
             else REPLACEMENT # utf8_decode bs)
      else if b < 240 then
        (case bs of
           [] \<Rightarrow> [REPLACEMENT]
         | b1 # r1 \<Rightarrow>
             if \<not> is_cont b1 \<or> (b = 224 \<and> b1 < 160) \<or> (b = 237 \<and> 160 \<le> b1)
             then REPLACEMENT # utf8_decode bs
             else
               (case r1 of
                  [] \<Rightarrow> [REPLACEMENT]
                | b2 # r2 \<Rightarrow>
                    if is_cont b2
                    then ((b - 224) * 4096 + (b1 - 128) * 64 + (b2 - 128)) # utf8_decode r2
                    else REPLACEMENT # utf8_decode r1))
      else if b < 245 then
        (case bs of
           [] \<Rightarrow> [REPLACEMENT]
         | b1 # r1 \<Rightarrow>
             if \<not> is_cont b1 \<or> (b = 240 \<and> b1 < 144) \<or> (b = 244 \<and> 144 \<le> b1)
             then REPLACEMENT # utf8_decode bs
             else
               (case r1 of
                  [] \<Rightarrow> [REPLACEMENT]
                | b2 # r2 \<Rightarrow>
                    if \<not> is_cont b2 then REPLACEMENT # utf8_decode r1
                    else
                      (case r2 of
                         [] \<Rightarrow> [REPLACEMENT]
                       | b3 # r3 \<Rightarrow>
                           if is_cont b3
                           then ((b - 240) * 262144 + (b1 - 128) * 4096 + (b2 - 128) * 64
                                   + (b3 - 128)) # utf8_decode r3
                           else REPLACEMENT # utf8_decode r2)))
      else REPLACEMENT # utf8_decode bs)"

text \<open>
  \<open>urllib.parse.quote(s)\<close> with the default \<open>safe='/'\<close>: the string is encoded as UTF-8
  and every byte outside the unreserved set and \<open>/\<close> is written as \<open>%XX\<close> in upper-case
  hexadecimal.
\<close>

definition percent :: nat where
  "percent = 37"

definition always_safe :: "nat \<Rightarrow> bool" where
  "always_safe b = (b \<in> set (str
      ''ABCDEFGHIJKLMNOPQRSTUVWXYZabcdefghijklmnopqrstuvwxyz0123456789_.-~''))"

definition hex_upper :: "nat \<Rightarrow> nat" where
  "hex_upper n = (if n < 10 then 48 + n else 55 + n)"

definition quote_byte :: "nat \<Rightarrow> pystr" where
  "quote_byte b =
     (if always_safe b \<or> b = slash then [b]
      else [percent, hex_upper (b div 16), hex_upper (b mod 16)])"

definition quote :: "pystr \<Rightarrow> error + pystr" where
  "quote s =
     (case utf8_encode s of
        Inl e \<Rightarrow> Inl e
      | Inr bs \<Rightarrow> Inr (concat (map quote_byte bs)))"

text \<open>
  \<open>urllib.parse.unquote(s)\<close>: a string without \<open>%\<close> is returned as it is.  Otherwise each
  maximal run of ASCII characters is percent-decoded to bytes (\<open>unquote_to_bytes\<close>: a
  \<open>%\<close> followed by two hexadecimal digits of either case is one byte, any other \<open>%\<close>
  stays) and the bytes are decoded as UTF-8 with replacement; characters outside ASCII
  are copied.
\<close>

definition hexval :: "nat \<Rightarrow> nat option" where
  "hexval c =
     (if 48 \<le> c \<and> c \<le> 57 then Some (c - 48)
      else if 65 \<le> c \<and> c \<le> 70 then Some (c - 55)
      else if 97 \<le> c \<and> c \<le> 102 then Some (c - 87)
      else None)"

fun unquote_to_bytes :: "pystr \<Rightarrow> nat list" where
  "unquote_to_bytes (c # h1 # h2 # cs) =
     (if c = percent then
        (case (hexval h1, hexval h2) of
           (Some a, Some b) \<Rightarrow> (16 * a + b) # unquote_to_bytes cs
         | _ \<Rightarrow> c # unquote_to_bytes (h1 # h2 # cs))
      else c # unquote_to_bytes (h1 # h2 # cs))"
| "unquote_to_bytes (c # cs) = c # unquote_to_bytes cs"
| "unquote_to_bytes [] = []"

fun unquote_runs :: "pystr \<Rightarrow> pystr \<Rightarrow> pystr" where
  "unquote_runs run [] = utf8_decode (unquote_to_bytes run)"
| "unquote_runs run (c # cs) =
     (if c < 128 then unquote_runs (run @ [c]) cs
      else utf8_decode (unquote_to_bytes run) @ c # unquote_runs [] cs)"

definition unquote :: "pystr \<Rightarrow> pystr" where
  "unquote s = (if percent \<notin> set s then s else unquote_runs [] s)"

section \<open>Text files\<close>

text \<open>
  A file is \<open>None\<close> when it does not exist and otherwise holds its text.  Reading in text
  mode translates \<open>\r\n\<close> and \<open>\r\<close> to \<open>\n\<close>; iterating over the file yields the lines
  with their terminator, the last one possibly without.  Writing to a file opened with
  \<open>encoding="utf-8"\<close> raises \<open>UnicodeEncodeError\<close> for a surrogate before anything reaches
  the file.
\<close>

type_synonym textfile = "pystr option"

definition LF :: nat where
  "LF = 10"

definition CR :: nat where
  "CR = 13"

fun translate_newlines :: "pystr \<Rightarrow> pystr" where
  "translate_newlines (c # d # cs) =
     (if c = CR then
        (if d = LF then LF # translate_newlines cs else LF # translate_newlines (d # cs))
      else c # translate_newlines (d # cs))"
| "translate_newlines [c] = (if c = CR then [LF] else [c])"
| "translate_newlines [] = []"

fun text_lines :: "pystr \<Rightarrow> pystr list" where
  "text_lines [] = []"
| "text_lines (c # cs) =
     (if c = LF then [LF] # text_lines cs
      else (case text_lines cs of
              [] \<Rightarrow> [[c]]
            | l # ls \<Rightarrow> (c # l) # ls))"

definition readlines :: "pystr \<Rightarrow> pystr list" where
  "readlines text = text_lines (translate_newlines text)"

text \<open>\<open>[line.strip() for line in f if line.strip()]\<close>.\<close>

definition stripped_lines :: "pystr \<Rightarrow> pystr list" where
  "stripped_lines text = filter (\<lambda>line. line \<noteq> []) (map strip (readlines text))"

definition encodable :: "pystr \<Rightarrow> bool" where
  "encodable s = list_all scalar_value s"

text \<open>The content of a file after \<open>open(path, "a")\<close>, before anything is written.\<close>

definition opened_for_append :: "textfile \<Rightarrow> pystr" where
  "opened_for_append f = (case f of None \<Rightarrow> [] | Some text \<Rightarrow> text)"

section \<open>Descriptor entries\<close>

definition file_marker :: pystr where
  "file_marker = str ''file:///''"

definition hash_sign :: pystr where
  "hash_sign = str ''#''"

text \<open>The entry line of \<open>create_mkv_playlists\<close> and \<open>create_mp4_playlists\<close>:
  \<open>f"file:///{urllib.parse.quote(file_path)}"\<close>.\<close>

definition playlist_entry :: "pystr \<Rightarrow> error + pystr" where
  "playlist_entry file_path =
     (case quote file_path of
        Inl e \<Rightarrow> Inl e
      | Inr encoded_path \<Rightarrow> Inr (file_marker @ encoded_path))"


section \<open>Concrete library entries\<close>

definition sample_track :: media_item where
  "sample_track =
     \<lparr>item_name = str ''Track1'', item_type = str ''Music'',
      item_path = str ''/music/The Beatles/Abbey Road/Track1.aif'',
      item_playlist = Some (str ''playlists/Track1.m3u''),
      item_artist = str ''The Beatles'', item_album = str ''Abbey Road''\<rparr>"

definition sample_video :: media_item where
  "sample_video =
     \<lparr>item_name = str ''Inception'', item_type = str ''MKV'',
      item_path = str ''/videos/Inception.mkv'',
      item_playlist = Some (str ''playlists/Inception.m3u''),
      item_artist = [], item_album = []\<rparr>"

section \<open>History logs\<close>

definition backslash :: nat where
  "backslash = 92"

text \<open>\<open>os.sep\<close> of posixpath.\<close>

definition os_sep :: nat where
  "os_sep = slash"

text \<open>
  \<open>log_history\<close> (nested in \<open>play_random_from_history2\<close> and
  \<open>play_random_from_history3\<close>).  \<open>history\<close> is the file \<open>history.m3u\<close>; \<open>abspath\<close> is
  \<open>os.path.abspath\<close>, which depends on the working directory.  The result is the file
  after the call, or the exception that \<open>quote\<close> raised before the file was touched.
\<close>

definition normalize_entry :: "(pystr \<Rightarrow> pystr) \<Rightarrow> pystr \<Rightarrow> pystr" where
  "normalize_entry lower line = lower (replace_char backslash slash (unquote line))"

definition existing_entries :: "(pystr \<Rightarrow> pystr) \<Rightarrow> textfile \<Rightarrow> pystr list" where
  "existing_entries lower history =
     (case history of
        None \<Rightarrow> []
      | Some text \<Rightarrow>
          map (normalize_entry lower)
            (filter (\<lambda>line. line \<noteq> [] \<and> \<not> startswith line hash_sign)
               (map strip (readlines text))))"

definition log_history ::
  "(pystr \<Rightarrow> pystr) \<Rightarrow> (pystr \<Rightarrow> pystr) \<Rightarrow> textfile \<Rightarrow> pystr \<Rightarrow> error + textfile"
where
  "log_history lower abspath history playlist_path =
     (let entry_path = abspath playlist_path in
      case quote (replace_char os_sep slash entry_path) of
        Inl e \<Rightarrow> Inl e
      | Inr quoted \<Rightarrow>
          let encoded_entry = file_marker @ quoted;
              norm_encoded = normalize_entry lower encoded_entry
          in if norm_encoded \<notin> set (existing_entries lower history)
             then Inr (Some (opened_for_append history @ encoded_entry @ [LF]))
             else Inr history)"

text \<open>
  \<open>log_pdf_opened\<close> on the file \<open>pdf_opened_history.txt\<close>.  Every exception is caught
  and printed, so the result is the file after the call: a write that fails to encode
  leaves what \<open>open\<close> left.
\<close>

definition log_pdf_opened :: "textfile \<Rightarrow> pystr \<Rightarrow> textfile" where
  "log_pdf_opened history pdf_path =
     (case history of
        None \<Rightarrow>
          if encodable (pdf_path @ [LF]) then Some (pdf_path @ [LF]) else Some []
      | Some text \<Rightarrow>
          let lines = stripped_lines text in
          if pdf_path \<notin> set lines then
            (if encodable (pdf_path @ [LF]) then Some (text @ pdf_path @ [LF]) else Some text)
          else Some text)"

text \<open>A log that is absent, empty or ends with a line break: what the writers of this
  program leave behind, since each of them ends what it writes with \<open>\n\<close>.\<close>

definition well_terminated :: "textfile \<Rightarrow> bool" where
  "well_terminated history =
     (case history of None \<Rightarrow> True | Some text \<Rightarrow> text = [] \<or> last text = LF)"

text \<open>
  \<open>scan_and_log_files\<close>.  \<open>walked\<close> is \<open>None\<close> when \<open>folder\<close> is empty or not a directory
  and otherwise the absolute paths of the files below it in the order of \<open>os.walk\<close>;
  \<open>history_file\<close> is the name of the log and \<open>history\<close> its content.  The result is the
  returned flag, or the exception raised while writing, and the file as it is left.
\<close>

fun write_new_files :: "bool \<Rightarrow> pystr list \<Rightarrow> pystr \<Rightarrow> (error + bool) \<times> textfile" where
  "write_new_files m3u [] text = (Inr True, Some text)"
| "write_new_files m3u (file_path # rest) text =
     (if m3u then
        (case quote file_path of
           Inl e \<Rightarrow> (Inl e, Some text)
         | Inr encoded_path \<Rightarrow>
             write_new_files m3u rest (text @ file_marker @ encoded_path @ [LF]))
      else if encodable (file_path @ [LF])
        then write_new_files m3u rest (text @ file_path @ [LF])
        else (Inl UnicodeEncodeError, Some text))"

definition scan_and_log_files ::
  "(pystr \<Rightarrow> pystr) \<Rightarrow> pystr list option \<Rightarrow> pystr list \<Rightarrow> pystr \<Rightarrow> textfile
     \<Rightarrow> (error + bool) \<times> textfile"
where
  "scan_and_log_files lower walked extensions history_file history =
     (case walked of
        None \<Rightarrow> (Inr False, history)
      | Some paths \<Rightarrow>
          let files = filter (\<lambda>full_path.
                          list_ex (endswith (lower (basename full_path))) extensions) paths
          in if files = [] then (Inr False, history)
             else
               let existing_files =
                     (case history of None \<Rightarrow> [] | Some text \<Rightarrow> stripped_lines text);
                   new_files = filter (\<lambda>f. f \<notin> set existing_files) files
               in if new_files = [] then (Inr False, history)
                  else write_new_files (endswith history_file m3u_ext) new_files
                         (opened_for_append history))"

section \<open>Player session\<close>

text \<open>
  The module globals \<open>VLC_SOCKET\<close> and \<open>VLC_PROCESS\<close> hold handles.  A process handle is
  an index into \<open>processes\<close>, the list of all processes started so far, each with the
  media argument of its command line and whether \<open>kill()\<close> was called on it.  A socket
  handle is an index into \<open>sockets\<close>, the connections made so far, each \<open>True\<close> until
  \<open>close()\<close> is called on it.  \<open>connectors\<close> counts the \<open>connect_vlc_socket\<close> threads
  that were started and have neither connected nor run out of their five seconds.
\<close>

record player =
  VLC_SOCKET :: "nat option"
  VLC_PROCESS :: "nat option"
  processes :: "(pystr \<times> bool) list"
  sockets :: "bool list"
  connectors :: nat

definition initial_player :: player where
  "initial_player =
     \<lparr>VLC_SOCKET = None, VLC_PROCESS = None, processes = [], sockets = [], connectors = 0\<rparr>"

fun request_kill :: "nat \<Rightarrow> (pystr \<times> bool) list \<Rightarrow> (pystr \<times> bool) list" where
  "request_kill h [] = []"
| "request_kill 0 ((m, k) # ps) = (m, True) # ps"
| "request_kill (Suc h) (p # ps) = p # request_kill h ps"

text \<open>
  \<open>launch_vlc\<close>.  \<open>popen_ok\<close> tells whether \<open>subprocess.Popen\<close> started the player; when
  it raises, the error is shown and neither the handle nor a connector thread is set up.
\<close>

definition launch_vlc :: "bool \<Rightarrow> player \<Rightarrow> pystr \<Rightarrow> player" where
  "launch_vlc popen_ok pl media_path =
     (let pl1 = (case VLC_SOCKET pl of
                   None \<Rightarrow> pl
                 | Some s \<Rightarrow> pl\<lparr>sockets := (sockets pl)[s := False], VLC_SOCKET := None\<rparr>);
          pl2 = (case VLC_PROCESS pl1 of
                   None \<Rightarrow> pl1
                 | Some h \<Rightarrow> pl1\<lparr>processes := request_kill h (processes pl1)\<rparr>)
      in if popen_ok
         then pl2\<lparr>processes := processes pl2 @ [(media_path, False)],
                  VLC_PROCESS := Some (length (processes pl2)),
                  connectors := connectors pl2 + 1\<rparr>
         else pl2)"

text \<open>
  The two ways a \<open>connect_vlc_socket\<close> thread ends: it connects and stores the new socket
  in \<open>VLC_SOCKET\<close>, or its five seconds pass.  Without a running thread nothing happens.
\<close>

definition connect_vlc_socket :: "bool \<Rightarrow> player \<Rightarrow> player" where
  "connect_vlc_socket connected pl =
     (if connectors pl = 0 then pl
      else if connected
        then pl\<lparr>sockets := sockets pl @ [True], VLC_SOCKET := Some (length (sockets pl)),
                connectors := connectors pl - 1\<rparr>
        else pl\<lparr>connectors := connectors pl - 1\<rparr>)"

datatype event = Launch pystr bool | Connected | GaveUp

fun step :: "player \<Rightarrow> event \<Rightarrow> player" where
  "step pl (Launch media_path popen_ok) = launch_vlc popen_ok pl media_path"
| "step pl Connected = connect_vlc_socket True pl"
| "step pl GaveUp = connect_vlc_socket False pl"

definition run_events :: "player \<Rightarrow> event list \<Rightarrow> player" where
  "run_events pl es = foldl step pl es"

definition live_processes :: "player \<Rightarrow> (pystr \<times> bool) list" where
  "live_processes pl = filter (\<lambda>p. \<not> snd p) (processes pl)"

definition open_channels :: "player \<Rightarrow> nat" where
  "open_channels pl = length (filter (\<lambda>b. b) (sockets pl))"

fun is_launch :: "event \<Rightarrow> bool" where
  "is_launch (Launch media_path popen_ok) = True"
| "is_launch Connected = False"
| "is_launch GaveUp = False"

text \<open>A schedule in which every launch finds the connector of the launch before it
  ended; \<open>n\<close> is the number of connectors running at the start.\<close>

fun settled :: "nat \<Rightarrow> event list \<Rightarrow> bool" where
  "settled n [] = True"
| "settled n (Launch media_path popen_ok # es) = (n = 0 \<and> settled (if popen_ok then 1 else 0) es)"
| "settled n (Connected # es) = settled (n - 1) es"
| "settled n (GaveUp # es) = settled (n - 1) es"

section \<open>Best-match search\<close>

definition PLAYLIST_FOLDER :: pystr where
  "PLAYLIST_FOLDER = str ''playlists''"

text \<open>\<open>os.path.join\<close> of posixpath for two components.\<close>

definition path_join :: "pystr \<Rightarrow> pystr \<Rightarrow> pystr" where
  "path_join a b =
     (if startswith b [slash] \<and> b \<noteq> [] then b
      else if a = [] \<or> endswith a [slash] then a @ b
      else a @ [slash] @ b)"

text \<open>
  \<open>process.extractOne(query, choices)\<close> of fuzzywuzzy, for a list of choices: the first
  choice with the highest score and that score, \<open>None\<close> for no choices.  \<open>scorer\<close> stands
  for the library's default processing and scoring (\<open>WRatio\<close>) of a query and a choice.
\<close>

fun extractOne :: "(pystr \<Rightarrow> pystr \<Rightarrow> int) \<Rightarrow> pystr \<Rightarrow> pystr list \<Rightarrow> (pystr \<times> int) option" where
  "extractOne scorer query [] = None"
| "extractOne scorer query (c # cs) =
     (case extractOne scorer query cs of
        None \<Rightarrow> Some (c, scorer query c)
      | Some (b, s) \<Rightarrow> if s \<le> scorer query c then Some (c, scorer query c) else Some (b, s))"

text \<open>The state \<open>search_and_open\<close> can change, and what it shows.\<close>

record app =
  session :: player
  SEARCH_HISTORY_FILE :: textfile
  PDF_OPENED_HISTORY_FILE :: textfile
  opened_documents :: "pystr list"

datatype dialog =
    NoData
  | NoMatch
  | OpeningPlaylist pystr
  | NotInHistory
  | MissingFile pystr
  | OpenFailed
  | OpeningPDF pystr
  | TypeErrorRaised

text \<open>\<open>log_search_history\<close>: a plain append; every exception is swallowed.\<close>

definition log_search_history :: "textfile \<Rightarrow> pystr \<Rightarrow> textfile" where
  "log_search_history history name =
     (if encodable (name @ [LF]) then Some (opened_for_append history @ name @ [LF])
      else Some (opened_for_append history))"

text \<open>
  The titles \<open>search_and_open\<close> scores: \<open>listdir\<close> is \<open>os.listdir(PLAYLIST_FOLDER)\<close> and
  \<open>pdf_history\<close> the file \<open>pdf_history.txt\<close>.
\<close>

definition playlist_titles :: "pystr list \<Rightarrow> pystr list" where
  "playlist_titles listdir =
     (let playlist_files = filter (\<lambda>f. endswith f m3u_ext) listdir
      in map (\<lambda>f. fst (splitext f)) playlist_files)"

definition pdf_files :: "textfile \<Rightarrow> pystr list" where
  "pdf_files pdf_history =
     (case pdf_history of
        None \<Rightarrow> []
      | Some text \<Rightarrow> let pdf_paths = stripped_lines text in map basename pdf_paths)"

definition all_titles :: "pystr list \<Rightarrow> textfile \<Rightarrow> pystr list" where
  "all_titles listdir pdf_history = playlist_titles listdir @ pdf_files pdf_history"

text \<open>
  \<open>search_and_open\<close>.  \<open>exists\<close> is \<open>os.path.exists\<close>, \<open>popen_ok\<close> whether the player
  starts, \<open>open_ok\<close> whether \<open>open_file_with_default_app\<close> returns without raising.
\<close>

definition search_and_open ::
  "(pystr \<Rightarrow> pystr \<Rightarrow> int) \<Rightarrow> pystr list \<Rightarrow> textfile \<Rightarrow> (pystr \<Rightarrow> bool) \<Rightarrow> bool \<Rightarrow> bool
     \<Rightarrow> app \<Rightarrow> pystr \<Rightarrow> dialog \<times> app"
where
  "search_and_open scorer listdir pdf_history exists popen_ok open_ok st query =
     (if all_titles listdir pdf_history = [] then (NoData, st)
      else
        case extractOne scorer query (all_titles listdir pdf_history) of
          None \<Rightarrow> (TypeErrorRaised, st)
        | Some (best_match, score) \<Rightarrow>
            if score < 60 then (NoMatch, st)
            else if best_match \<in> set (playlist_titles listdir) then
              (let playlist_path = path_join PLAYLIST_FOLDER (best_match @ m3u_ext);
                   st1 = st\<lparr>session := launch_vlc popen_ok (session st) playlist_path\<rparr>;
                   st2 = st1\<lparr>SEARCH_HISTORY_FILE :=
                            log_search_history (SEARCH_HISTORY_FILE st1) best_match\<rparr>
               in (OpeningPlaylist best_match, st2))
            else
              (case pdf_history of
                 None \<Rightarrow> (OpenFailed, st)
               | Some text \<Rightarrow>
                   let lines = stripped_lines text;
                       matched_paths = filter (\<lambda>p. basename p = best_match) lines
                   in case matched_paths of
                        [] \<Rightarrow> (NotInHistory, st)
                      | pdf_path # others \<Rightarrow>
                          if \<not> exists pdf_path then (MissingFile pdf_path, st)
                          else if \<not> open_ok then (OpenFailed, st)
                          else
                            (let st1 = st\<lparr>opened_documents := opened_documents st @ [pdf_path]\<rparr>;
                                 st2 = st1\<lparr>PDF_OPENED_HISTORY_FILE :=
                                          log_pdf_opened (PDF_OPENED_HISTORY_FILE st1) pdf_path\<rparr>;
                                 st3 = st2\<lparr>SEARCH_HISTORY_FILE :=
                                          log_search_history (SEARCH_HISTORY_FILE st2) best_match\<rparr>
                             in (OpeningPDF best_match, st3))))"

text \<open>
  The title universe in the words of the specification: the names of the descriptor
  files without the internal history logs, and the document base names with their
  extension stripped.
\<close>

definition spec_title_universe :: "pystr list \<Rightarrow> textfile \<Rightarrow> pystr set" where
  "spec_title_universe listdir pdf_history =
     set (map (\<lambda>f. fst (splitext f))
            (filter (\<lambda>f. endswith f m3u_ext \<and> f \<noteq> str ''history.m3u'' \<and> f \<noteq> str ''history2.m3u'')
               listdir))
     \<union> set (map (\<lambda>p. fst (splitext (basename p)))
              (case pdf_history of None \<Rightarrow> [] | Some text \<Rightarrow> stripped_lines text))"

definition initial_app :: app where
  "initial_app =
     \<lparr>session = initial_player, SEARCH_HISTORY_FILE = None, PDF_OPENED_HISTORY_FILE = None,
      opened_documents = []\<rparr>"

section \<open>Properties of the string functions\<close>






lemma utf8_encode_ascii: "\<forall>c\<in>set s. c < 128 \<Longrightarrow> utf8_encode s = Inr s"
  by (induction s) (auto simp: scalar_value_def utf8_encode_cp_def)


lemma budget: "MAX_FILENAME_LENGTH - length m3u_ext = 211"
  by (simp add: MAX_FILENAME_LENGTH_def m3u_ext_def str_def)

section \<open>Descriptor names and the live filter\<close>

lemmas run_simps =
  str_def strip_def lstrip_def rstrip_def is_space_def startswith_def endswith_def
  replace_char_def ascii_lower_def slash_def dot_def basename_def splitext_def
  MAX_FILENAME_LENGTH_def m3u_ext_def VALID_CHARS_def Let_def


text \<open>
  Claim C9 (empty-name fallback), evaluated where the code departs from it.  The video
  \<open>/videos/???.mkv\<close> has a display name with no allowed character; \<open>create_mkv_playlists\<close>
  has no fallback and writes its descriptor to the file \<open>.m3u\<close>, while \<open>write_playlist\<close>
  on the same display name substitutes \<open>playlist_\<close> followed by eight digits of the hash.
\<close>

theorem empty_name_fallback_missing:
  "mkv_playlist_file (str ''/videos/???.mkv'') = str ''.m3u''
   \<and> write_playlist_file md5_hexdigest (str ''???'') =
       Inr (str ''playlist_'' @ take 8 (md5_hexdigest (str ''???'')) @ str ''.m3u'')"
proof -
  have a: "mkv_playlist_file (str ''/videos/???.mkv'') = str ''.m3u''"
    by (simp add: mkv_playlist_file_def mkv_safe_name_def sanitize_playlist_name_def run_simps)
  have s: "strip (filter (\<lambda>c. c \<in> set VALID_CHARS) (str ''???'')) = []"
    by (simp add: run_simps)
  have e: "utf8_encode (str ''???'') = Inr (str ''???'')"
    by (rule utf8_encode_ascii) (simp add: str_def)
  have l: "length (str ''playlist_'' @ take 8 (md5_hexdigest (str ''???''))) \<le> 211"
    by (simp add: str_def)
  have t: "take (MAX_FILENAME_LENGTH - length m3u_ext)
             (str ''playlist_'' @ take 8 (md5_hexdigest (str ''???''))) =
           str ''playlist_'' @ take 8 (md5_hexdigest (str ''???''))"
    unfolding budget using l by (rule take_all)
  have "write_playlist_file md5_hexdigest (str ''???'') =
       Inr ((str ''playlist_'' @ take 8 (md5_hexdigest (str ''???''))) @ m3u_ext)"
    by (simp only: write_playlist_file_def write_playlist_safe_name_def s e t Let_def
        simp_thms if_True sum.case)
  then have b: "write_playlist_file md5_hexdigest (str ''???'') =
       Inr (str ''playlist_'' @ take 8 (md5_hexdigest (str ''???'')) @ str ''.m3u'')"
    by (simp add: m3u_ext_def)
  from a b show ?thesis by blast
qed

lemma filter_library_parts:
  "filter_query lower entry_text \<noteq> [] \<Longrightarrow>
   filter_library lower ratio items entry_text =
     (let parts = filter_parts lower entry_text in
      if length parts = 1 then
        filter (\<lambda>item. ratio (parts ! 0) (lower (item_name item)) \<ge> 70 \<or>
                       ratio (parts ! 0) (lower (item_album item)) \<ge> 70 \<or>
                       ratio (parts ! 0) (lower (item_artist item)) \<ge> 70) items
      else if length parts = 2 then
        filter (\<lambda>item. item_album item \<noteq> [] \<and> item_artist item \<noteq> [] \<and>
               ratio (parts ! 0) (lower (item_album item)) \<ge> 70 \<and>
               ratio (parts ! 1) (lower (item_artist item)) \<ge> 70) items
      else if length parts = 3 then
        filter (\<lambda>item. item_name item \<noteq> [] \<and> item_album item \<noteq> [] \<and> item_artist item \<noteq> [] \<and>
               ratio (parts ! 0) (lower (item_name item)) \<ge> 70 \<and>
               ratio (parts ! 1) (lower (item_album item)) \<ge> 70 \<and>
               ratio (parts ! 2) (lower (item_artist item)) \<ge> 70) items
      else [])"
  by (simp add: filter_library_def filter_parts_def Let_def SCORE_THRESHOLD_def)


text \<open>
  Claim C10 (four or more parts).  When the search text splits into four or more parts
  at its commas, the live filter shows nothing, whatever the library holds.
\<close>

theorem four_parts_empty:
  assumes "4 \<le> length (filter_parts lower entry_text)"
  shows "filter_library lower ratio items entry_text = []"
proof -
  have "filter_query lower entry_text \<noteq> []"
  proof
    assume "filter_query lower entry_text = []"
    then have "filter_parts lower entry_text = [[]]"
      by (simp add: filter_parts_def strip_def lstrip_def rstrip_def)
    with assms show False by simp
  qed
  from filter_library_parts [OF this, of ratio items] assms show ?thesis
    by (simp add: Let_def)
qed

section \<open>Concrete runs of the live filter\<close>

lemmas item_simps = sample_track_def sample_video_def exact_ratio_def filter_query_def
  filter_parts_def comma_def



text \<open>
  A query of four parts against a library of two entries.
\<close>

theorem four_parts_empty_witness:
  "4 \<le> length (filter_parts ascii_lower (str ''track1, abbey road, the beatles, 1969''))
   \<and> filter_library ascii_lower exact_ratio [sample_track, sample_video]
         (str ''track1, abbey road, the beatles, 1969'') = []"
proof -
  have l: "4 \<le> length (filter_parts ascii_lower (str ''track1, abbey road, the beatles, 1969''))"
    by (simp add: item_simps run_simps)
  from l four_parts_empty [OF l] show ?thesis by blast
qed

section \<open>UTF-8: decoding what was encoded\<close>














lemma utf8_encode_cp_bytes: "scalar_value c \<Longrightarrow> b \<in> set (utf8_encode_cp c) \<Longrightarrow> b < 256"
  unfolding scalar_value_def utf8_encode_cp_def
  by (auto split: if_splits)

lemma utf8_encode_bytes:
  "utf8_encode p = Inr bs \<Longrightarrow> \<forall>b\<in>set bs. b < 256"
proof (induction p arbitrary: bs)
  case Nil
  then show ?case by simp
next
  case (Cons c cs)
  from Cons.prems have sc: "scalar_value c"
    by (simp split: if_splits)
  with Cons.prems obtain bs' where bs': "utf8_encode cs = Inr bs'" "bs = utf8_encode_cp c @ bs'"
    by (auto split: sum.splits)
  show ?case
    using Cons.IH [OF bs'(1)] utf8_encode_cp_bytes [OF sc] by (auto simp: bs'(2))
qed

section \<open>Percent-encoding: unquoting what was quoted\<close>


lemma always_safe_range: "always_safe b \<Longrightarrow> 45 \<le> b \<and> b \<le> 126"
  by (auto simp: always_safe_def str_def)


lemma hex_upper_range: "n < 16 \<Longrightarrow> 48 \<le> hex_upper n \<and> hex_upper n \<le> 70"
  by (simp add: hex_upper_def)

lemma hex_upper_props: "n < 16 \<Longrightarrow> hex_upper n < 128 \<and> \<not> is_space (hex_upper n)"
  using hex_upper_range [of n] by (simp add: is_space_def)




lemma quote_byte_range:
  assumes "b < 256" "c \<in> set (quote_byte b)"
  shows "37 \<le> c \<and> c \<le> 126"
proof (cases "always_safe b \<or> b = slash")
  case True
  with assms(2) have "always_safe c \<or> c = 47" by (simp add: quote_byte_def slash_def)
  then show ?thesis
  proof
    assume "always_safe c"
    then show ?thesis using always_safe_range [of c] by simp
  next
    assume "c = 47"
    then show ?thesis by simp
  qed
next
  case False
  have d: "b div 16 < 16" "b mod 16 < 16" using assms by auto
  from False assms(2) have "c = 37 \<or> c = hex_upper (b div 16) \<or> c = hex_upper (b mod 16)"
    by (simp add: quote_byte_def percent_def)
  then show ?thesis
    using hex_upper_range [OF d(1)] hex_upper_range [OF d(2)] by auto
qed

lemma quote_byte_chars:
  assumes "b < 256" "c \<in> set (quote_byte b)"
  shows "c < 128 \<and> \<not> is_space c"
  using quote_byte_range [OF assms] by (simp add: is_space_def)

lemma quote_chars:
  assumes "quote p = Inr q" "c \<in> set q"
  shows "c < 128 \<and> \<not> is_space c"
proof -
  from assms(1) obtain bs where bs: "utf8_encode p = Inr bs" "q = concat (map quote_byte bs)"
    by (auto simp: quote_def split: sum.splits)
  from assms(2) bs(2) obtain b where "b \<in> set bs" "c \<in> set (quote_byte b)" by auto
  with utf8_encode_bytes [OF bs(1)] show ?thesis
    using quote_byte_chars by blast
qed








section \<open>Reading back an appended line\<close>

lemma translate_newlines_plain:
  "c \<noteq> CR \<Longrightarrow> translate_newlines (c # cs) = c # translate_newlines cs"
  by (cases cs) simp_all

lemma translate_newlines_id: "CR \<notin> set s \<Longrightarrow> translate_newlines s = s"
  by (induction s) (simp_all add: translate_newlines_plain)

lemma translate_newlines_append:
  "a = [] \<or> last a \<noteq> CR \<Longrightarrow>
   translate_newlines (a @ b) = translate_newlines a @ translate_newlines b"
proof (induction a rule: translate_newlines.induct)
  case (1 c d cs)
  then show ?case by (auto split: if_splits)
next
  case (2 c)
  then show ?case by (simp add: translate_newlines_plain)
next
  case 3
  then show ?case by simp
qed

lemma translate_newlines_last:
  "a \<noteq> [] \<Longrightarrow> last a = LF \<Longrightarrow>
   translate_newlines a \<noteq> [] \<and> last (translate_newlines a) = LF"
  by (induction a rule: translate_newlines.induct) (auto simp: LF_def CR_def split: if_splits)

lemma text_lines_append:
  "a = [] \<or> last a = LF \<Longrightarrow> text_lines (a @ b) = text_lines a @ text_lines b"
proof (induction a)
  case Nil
  then show ?case by simp
next
  case (Cons c cs)
  show ?case
  proof (cases "cs = []")
    case True
    with Cons.prems show ?thesis by simp
  next
    case False
    with Cons.prems have "last cs = LF" by simp
    with Cons.IH have ih: "text_lines (cs @ b) = text_lines cs @ text_lines b" by simp
    from False have "text_lines cs \<noteq> []" by (cases cs) (auto split: list.splits)
    then show ?thesis by (auto simp: ih split: list.splits)
  qed
qed

lemma text_lines_single: "LF \<notin> set e \<Longrightarrow> text_lines (e @ [LF]) = [e @ [LF]]"
  by (induction e) simp_all

lemma readlines_append_line:
  assumes "text = [] \<or> last text = LF" "LF \<notin> set e" "CR \<notin> set e"
  shows "readlines (text @ e @ [LF]) = readlines text @ [e @ [LF]]"
proof -
  have ne: "CR \<notin> set (e @ [LF])" using assms(3) by (simp add: LF_def CR_def)
  have a: "text = [] \<or> last text \<noteq> CR" using assms(1) by (auto simp: LF_def CR_def)
  have "translate_newlines (text @ e @ [LF]) = translate_newlines text @ (e @ [LF])"
    using translate_newlines_append [OF a, of "e @ [LF]"] translate_newlines_id [OF ne]
    by simp
  moreover have "translate_newlines text = [] \<or> last (translate_newlines text) = LF"
    using assms(1) translate_newlines_last [of "text"] by (cases "text = []") auto
  ultimately show ?thesis
    using text_lines_append [of "translate_newlines text" "e @ [LF]"]
      text_lines_single [OF assms(2)]
    by (simp add: readlines_def)
qed


lemma strip_line:
  assumes "e \<noteq> []" "\<not> is_space (hd e)" "\<not> is_space (last e)"
  shows "strip (e @ [LF]) = e"
proof -
  have "dropWhile is_space (e @ [LF]) = e @ [LF]"
    using assms(1,2) by (cases e) simp_all
  moreover have "dropWhile is_space (rev e) = rev e"
    using assms(1,3) by (simp add: dropWhile_eq_self_iff hd_rev)
  ultimately show ?thesis
    by (simp add: strip_def lstrip_def rstrip_def is_space_def LF_def)
qed

lemma appended_line_is_read:
  assumes "text = [] \<or> last text = LF" "LF \<notin> set e" "CR \<notin> set e" "e \<noteq> []"
    "\<not> is_space (hd e)" "\<not> is_space (last e)"
  shows "map strip (readlines (text @ e @ [LF])) = map strip (readlines text) @ [e]"
  using readlines_append_line [OF assms(1,2,3)] strip_line [OF assms(4,5,6)] by simp

section \<open>The path codec\<close>

lemma file_marker_eq: "file_marker = [102, 105, 108, 101, 58, 47, 47, 47]"
  by (simp add: file_marker_def str_def)

lemma hash_sign_eq: "hash_sign = [35]"
  by (simp add: hash_sign_def str_def)

lemma entry_facts:
  assumes "quote p = Inr q"
  defines "e \<equiv> file_marker @ q"
  shows "e \<noteq> []" "\<not> is_space (hd e)" "\<not> is_space (last e)" "LF \<notin> set e" "CR \<notin> set e"
    "startswith e file_marker" "\<not> startswith e hash_sign" "drop 8 e = q"
proof -
  have m: "\<forall>c\<in>set file_marker. \<not> is_space c"
    by (simp add: file_marker_eq is_space_def)
  have q: "\<forall>c\<in>set q. \<not> is_space c"
    using quote_chars [OF assms(1)] by blast
  from m q have all: "\<forall>c\<in>set e. \<not> is_space c" by (auto simp: e_def)
  show ne: "e \<noteq> []" by (simp add: e_def file_marker_eq)
  from all ne show "\<not> is_space (hd e)" by (meson hd_in_set)
  from all ne show "\<not> is_space (last e)" by (meson last_in_set)
  have "is_space LF" "is_space CR" by (simp_all add: is_space_def LF_def CR_def)
  with all show "LF \<notin> set e" "CR \<notin> set e" by blast+
  show "startswith e file_marker" by (simp add: startswith_def e_def)
  show "\<not> startswith e hash_sign" by (simp add: startswith_def e_def file_marker_eq hash_sign_eq)
  show "drop 8 e = q" by (simp add: e_def file_marker_eq)
qed



lemmas codec_simps =
  playlist_entry_def quote_def quote_byte_def always_safe_def hex_upper_def percent_def
  utf8_encode_cp_def scalar_value_def encodable_def file_marker_def hash_sign_def
  LF_def CR_def


section \<open>Appending to the history logs\<close>

lemma log_history_again:
  assumes wt: "well_terminated history"
    and q: "quote (replace_char os_sep slash entry_path) = Inr quoted"
  shows "normalize_entry lower (file_marker @ quoted) \<in>
           set (existing_entries lower
                  (Some (opened_for_append history @ (file_marker @ quoted) @ [LF])))"
proof -
  note f = entry_facts [OF q]
  let ?e = "file_marker @ quoted"
  let ?t = "opened_for_append history"
  have t: "?t = [] \<or> last ?t = LF"
    using wt by (auto simp: well_terminated_def opened_for_append_def split: option.splits)
  have "map strip (readlines (?t @ ?e @ [LF])) = map strip (readlines ?t) @ [?e]"
    by (rule appended_line_is_read [OF t f(4) f(5) f(1) f(2) f(3)])
  then have "?e \<in> set (filter (\<lambda>line. line \<noteq> [] \<and> \<not> startswith line hash_sign)
                        (map strip (readlines (?t @ ?e @ [LF]))))"
    using f(1) f(7) by simp
  then have "normalize_entry lower ?e \<in>
      normalize_entry lower ` set (filter (\<lambda>line. line \<noteq> [] \<and> \<not> startswith line hash_sign)
                        (map strip (readlines (?t @ ?e @ [LF]))))"
    by (rule imageI)
  then show ?thesis
    unfolding existing_entries_def option.case set_map .
qed


lemmas log_simps =
  log_history_def log_pdf_opened_def existing_entries_def normalize_entry_def
  stripped_lines_def readlines_def opened_for_append_def well_terminated_def unquote_def
  os_sep_def backslash_def scan_and_log_files_def

lemma log_history_normalized:
  assumes wt: "well_terminated history"
    and first: "log_history lower abspath history p1 = Inr h1"
    and q1: "quote (replace_char os_sep slash (abspath p1)) = Inr quoted1"
    and q2: "quote (replace_char os_sep slash (abspath p2)) = Inr quoted2"
    and same: "normalize_entry lower (file_marker @ quoted2) =
               normalize_entry lower (file_marker @ quoted1)"
  shows "log_history lower abspath h1 p2 = Inr h1"
proof -
  have "normalize_entry lower (file_marker @ quoted1) \<in> set (existing_entries lower h1)"
  proof (cases "normalize_entry lower (file_marker @ quoted1)
                  \<in> set (existing_entries lower history)")
    case True
    with first q1 have "h1 = history" by (simp add: log_history_def Let_def)
    with True show ?thesis by simp
  next
    case False
    with first q1 have "h1 = Some (opened_for_append history @ (file_marker @ quoted1) @ [LF])"
      by (simp add: log_history_def Let_def)
    then show ?thesis
      using log_history_again [OF wt q1, of lower] by simp
  qed
  with same q2 show ?thesis by (simp add: log_history_def Let_def)
qed



text \<open>
  Claim C2 (duplicate detection by normalized path), evaluated where the code departs
  from it.  \<open>scan_and_log_files\<close> compares the raw path with the stripped lines of the log.
  In a \<open>.m3u\<close> log the lines are the encoded entries, so scanning the same file twice
  appends its entry twice; in a plain log two spellings of one path that differ in case
  are both appended.
\<close>

theorem scan_log_duplicates:
  "scan_and_log_files ascii_lower (Some [str ''/music/The Beatles/Abbey Road/Track1.aif''])
       [str ''.aif'', str ''.aiff''] (str ''playlists/history.m3u'') None
     = (Inr True, Some (str ''file:////music/The%20Beatles/Abbey%20Road/Track1.aif'' @ [LF]))
   \<and> scan_and_log_files ascii_lower (Some [str ''/music/The Beatles/Abbey Road/Track1.aif''])
       [str ''.aif'', str ''.aiff''] (str ''playlists/history.m3u'')
       (Some (str ''file:////music/The%20Beatles/Abbey%20Road/Track1.aif'' @ [LF]))
     = (Inr True, Some (str ''file:////music/The%20Beatles/Abbey%20Road/Track1.aif'' @ [LF]
                         @ str ''file:////music/The%20Beatles/Abbey%20Road/Track1.aif'' @ [LF]))
   \<and> scan_and_log_files ascii_lower (Some [str ''/docs/book.pdf''])
       [str ''.pdf''] (str ''playlists/pdf_history.txt'') (Some (str ''/Docs/Book.pdf'' @ [LF]))
     = (Inr True, Some (str ''/Docs/Book.pdf'' @ [LF] @ str ''/docs/book.pdf'' @ [LF]))"
  by (simp add: log_simps codec_simps run_simps)

end
